theory Spec2Isabelle
  imports Main
begin

section \<open>Levels and package-level values (logger.go, lines 10-38)\<close>

text \<open>
  \<^verbatim>\<open>type level int\<close>: a level is an integer, and a caller may hand any integer to
  \<^verbatim>\<open>SetLevel\<close>. The five named levels are the \<^verbatim>\<open>iota\<close> constants 0..4. Levels are
  only compared, never added, so the 64-bit range plays no role.
\<close>

type_synonym level = int

definition DEBUG :: level where "DEBUG = 0"
definition INFO :: level where "INFO = 1"
definition WARNING :: level where "WARNING = 2"
definition ERROR :: level where "ERROR = 3"
definition FATAL :: level where "FATAL = 4"

lemmas level_defs = DEBUG_def INFO_def WARNING_def ERROR_def FATAL_def

text \<open>\<^verbatim>\<open>flag = log.Ldate | log.Ltime\<close>, the standard library's bits 1 and 2.\<close>

definition Ldate :: int where "Ldate = 1"
definition Ltime :: int where "Ltime = 2"
definition flag :: int where "flag = or Ldate Ltime"

text \<open>
  The \<^verbatim>\<open>prefix\<close> table. Reading a Go map at a missing key gives the zero value, the
  empty string; \<open>prefix_at\<close> is the indexing expression \<^verbatim>\<open>prefix[l]\<close>.
\<close>

definition prefix :: "level \<rightharpoonup> string" where
  "prefix = map_of
     [(DEBUG, ''DEBUG: ''),
      (INFO, ''INFO: ''),
      (WARNING, ''WARNING: ''),
      (ERROR, ''ERROR: ''),
      (FATAL, ''FATAL: '')]"

definition prefix_at :: "level \<Rightarrow> string" where
  "prefix_at l = (case prefix l of None \<Rightarrow> [] | Some s \<Rightarrow> s)"

section \<open>Collaborators: arguments, formatter, line logger\<close>

text \<open>
  An argument of type \<^verbatim>\<open>interface{}\<close> is either a string (the suffix that the wrapper
  appends is one) or some other value.
\<close>

datatype 'a iface = StringVal string | OtherVal 'a

text \<open>
  The \<^verbatim>\<open>Formatter\<close> interface is declared outside logger.go; the wrapper uses its three
  methods \<^verbatim>\<open>Format\<close>, \<^verbatim>\<open>GetPrefix\<close> and \<^verbatim>\<open>GetSuffix\<close>. A formatter is taken here as
  the three functions it provides.
\<close>

record 'a Formatter =
  Format :: "level \<Rightarrow> 'a iface list \<Rightarrow> 'a iface list"
  GetPrefix :: "level \<Rightarrow> string"
  GetSuffix :: "level \<Rightarrow> string"

text \<open>A destination: the two process streams, or a writer supplied by the caller.\<close>

datatype 'w writer = os_Stdout | os_Stderr | UserWriter 'w

text \<open>
  \<^verbatim>\<open>log.New(out, prefix, flag)\<close> of the standard library: a line logger is fixed by its
  destination, its static prefix and its flags.
\<close>

record 'w line_logger =
  dest :: "'w writer"
  lprefix :: string
  lflag :: int

definition log_New :: "'w writer \<Rightarrow> string \<Rightarrow> int \<Rightarrow> 'w line_logger" where
  "log_New out p fl = \<lparr>dest = out, lprefix = p, lflag = fl\<rparr>"

text \<open>The nine primitives of the line logger that the wrapper can call.\<close>

datatype prim =
  LPrint | LPrintf | LPrintln
  | LFatal | LFatalf | LFatalln
  | LPanic | LPanicf | LPanicln

text \<open>
  What the caller of a primitive sees afterwards: the standard logger's \<^verbatim>\<open>Fatal\<close> family
  writes and calls \<^verbatim>\<open>os.Exit(1)\<close>, its \<^verbatim>\<open>Panic\<close> family writes and panics, the
  \<^verbatim>\<open>Print\<close> family writes and returns.
\<close>

datatype outcome = Returns | Exits | Panics

fun prim_outcome :: "prim \<Rightarrow> outcome" where
  "prim_outcome LPrint = Returns"
| "prim_outcome LPrintf = Returns"
| "prim_outcome LPrintln = Returns"
| "prim_outcome LFatal = Exits"
| "prim_outcome LFatalf = Exits"
| "prim_outcome LFatalln = Exits"
| "prim_outcome LPanic = Panics"
| "prim_outcome LPanicf = Panics"
| "prim_outcome LPanicln = Panics"

section \<open>Process state\<close>

text \<open>
  Everything a wrapper operation does beyond returning is recorded, in order, in a trace:
  each call of a formatter method and each call of a line-logger primitive, the latter
  with the logger it was made on (so with its destination and prefix), the format string
  when there is one, and the arguments. A destination receives bytes only through a
  \<open>LoggerCall\<close> on a logger bound to it.
\<close>

datatype ('a, 'w) event =
  FormatCall level "'a iface list"
  | GetSuffixCall level
  | LoggerCall "'w line_logger" prim "string option" "'a iface list"

text \<open>
  The package variable \<^verbatim>\<open>currLvl\<close> (line 29) is the only mutable state of the package.
  It belongs to the process, not to a wrapper or a logger.
\<close>

record ('a, 'w) world =
  currLvl :: level
  trace :: "('a, 'w) event list"

definition init_world :: "('a, 'w) world" where
  "init_world = \<lparr>currLvl = INFO, trace = []\<rparr>"

definition SetLevel :: "level \<Rightarrow> ('a, 'w) world \<Rightarrow> ('a, 'w) world" where
  "SetLevel l s = s\<lparr>currLvl := l\<rparr>"

definition emit :: "('a, 'w) event \<Rightarrow> ('a, 'w) world \<Rightarrow> ('a, 'w) world" where
  "emit e s = s\<lparr>trace := trace s @ [e]\<rparr>"

text \<open>A call of primitive \<open>p\<close> on line logger \<open>lg\<close>.\<close>

definition logger_call ::
  "'w line_logger \<Rightarrow> prim \<Rightarrow> string option \<Rightarrow> 'a iface list \<Rightarrow> ('a, 'w) world
     \<Rightarrow> outcome \<times> ('a, 'w) world" where
  "logger_call lg p fmt v s = (prim_outcome p, emit (LoggerCall lg p fmt v) s)"

section \<open>Wrapper (logger.go, lines 88-192)\<close>

record ('a, 'w) Wrapper =
  lvl :: level
  formatter :: "'a Formatter"
  logger :: "'w line_logger"

text \<open>
  Each operation is written out as in the source. It reads \<^verbatim>\<open>currLvl\<close>, and when the
  wrapper's level passes it calls the formatter and then one primitive of the wrapper's
  line logger. The operations without a format string call \<^verbatim>\<open>Format\<close> before
  \<^verbatim>\<open>GetSuffix\<close>, those with a format string call \<^verbatim>\<open>GetSuffix\<close> first. The lock calls
  \<^verbatim>\<open>mu.RLock(); mu.RUnlock()\<close> that open every operation change nothing in a single
  thread; they are the subject of the last section.
\<close>

text \<open>Lines 96-104.\<close>

definition Print ::
  "('a, 'w) Wrapper \<Rightarrow> 'a iface list \<Rightarrow> ('a, 'w) world \<Rightarrow> outcome \<times> ('a, 'w) world" where
  "Print w v s =
     (if lvl w \<ge> currLvl s then
        let s = emit (FormatCall (lvl w) v) s;
            v = Format (formatter w) (lvl w) v;
            s = emit (GetSuffixCall (lvl w)) s;
            v = v @ [StringVal (GetSuffix (formatter w) (lvl w))]
        in logger_call (logger w) LPrint None v s
      else (Returns, s))"

text \<open>Lines 107-115.\<close>

definition Printf ::
  "('a, 'w) Wrapper \<Rightarrow> string \<Rightarrow> 'a iface list \<Rightarrow> ('a, 'w) world
     \<Rightarrow> outcome \<times> ('a, 'w) world" where
  "Printf w format v s =
     (if lvl w \<ge> currLvl s then
        let s = emit (GetSuffixCall (lvl w)) s;
            suffix = GetSuffix (formatter w) (lvl w);
            s = emit (FormatCall (lvl w) v) s;
            v = Format (formatter w) (lvl w) v
        in logger_call (logger w) LPrintf (Some (''%s'' @ format @ suffix)) v s
      else (Returns, s))"

text \<open>Lines 118-126.\<close>

definition Println ::
  "('a, 'w) Wrapper \<Rightarrow> 'a iface list \<Rightarrow> ('a, 'w) world \<Rightarrow> outcome \<times> ('a, 'w) world" where
  "Println w v s =
     (if lvl w \<ge> currLvl s then
        let s = emit (FormatCall (lvl w) v) s;
            v = Format (formatter w) (lvl w) v;
            s = emit (GetSuffixCall (lvl w)) s;
            v = v @ [StringVal (GetSuffix (formatter w) (lvl w))]
        in logger_call (logger w) LPrintln None v s
      else (Returns, s))"

text \<open>Lines 129-137.\<close>

definition Fatal ::
  "('a, 'w) Wrapper \<Rightarrow> 'a iface list \<Rightarrow> ('a, 'w) world \<Rightarrow> outcome \<times> ('a, 'w) world" where
  "Fatal w v s =
     (if lvl w \<ge> currLvl s then
        let s = emit (FormatCall (lvl w) v) s;
            v = Format (formatter w) (lvl w) v;
            s = emit (GetSuffixCall (lvl w)) s;
            v = v @ [StringVal (GetSuffix (formatter w) (lvl w))]
        in logger_call (logger w) LFatal None v s
      else (Returns, s))"

text \<open>Lines 140-148.\<close>

definition Fatalf ::
  "('a, 'w) Wrapper \<Rightarrow> string \<Rightarrow> 'a iface list \<Rightarrow> ('a, 'w) world
     \<Rightarrow> outcome \<times> ('a, 'w) world" where
  "Fatalf w format v s =
     (if lvl w \<ge> currLvl s then
        let s = emit (GetSuffixCall (lvl w)) s;
            suffix = GetSuffix (formatter w) (lvl w);
            s = emit (FormatCall (lvl w) v) s;
            v = Format (formatter w) (lvl w) v
        in logger_call (logger w) LFatalf (Some (''%s'' @ format @ suffix)) v s
      else (Returns, s))"

text \<open>Lines 151-159.\<close>

definition Fatalln ::
  "('a, 'w) Wrapper \<Rightarrow> 'a iface list \<Rightarrow> ('a, 'w) world \<Rightarrow> outcome \<times> ('a, 'w) world" where
  "Fatalln w v s =
     (if lvl w \<ge> currLvl s then
        let s = emit (FormatCall (lvl w) v) s;
            v = Format (formatter w) (lvl w) v;
            s = emit (GetSuffixCall (lvl w)) s;
            v = v @ [StringVal (GetSuffix (formatter w) (lvl w))]
        in logger_call (logger w) LFatalln None v s
      else (Returns, s))"

text \<open>Lines 162-170; line 168 is \<^verbatim>\<open>w.logger.Fatal(v...)\<close>.\<close>

definition Panic ::
  "('a, 'w) Wrapper \<Rightarrow> 'a iface list \<Rightarrow> ('a, 'w) world \<Rightarrow> outcome \<times> ('a, 'w) world" where
  "Panic w v s =
     (if lvl w \<ge> currLvl s then
        let s = emit (FormatCall (lvl w) v) s;
            v = Format (formatter w) (lvl w) v;
            s = emit (GetSuffixCall (lvl w)) s;
            v = v @ [StringVal (GetSuffix (formatter w) (lvl w))]
        in logger_call (logger w) LFatal None v s
      else (Returns, s))"

text \<open>Lines 173-181.\<close>

definition Panicf ::
  "('a, 'w) Wrapper \<Rightarrow> string \<Rightarrow> 'a iface list \<Rightarrow> ('a, 'w) world
     \<Rightarrow> outcome \<times> ('a, 'w) world" where
  "Panicf w format v s =
     (if lvl w \<ge> currLvl s then
        let s = emit (GetSuffixCall (lvl w)) s;
            suffix = GetSuffix (formatter w) (lvl w);
            s = emit (FormatCall (lvl w) v) s;
            v = Format (formatter w) (lvl w) v
        in logger_call (logger w) LPanicf (Some (''%s'' @ format @ suffix)) v s
      else (Returns, s))"

text \<open>Lines 184-192.\<close>

definition Panicln ::
  "('a, 'w) Wrapper \<Rightarrow> 'a iface list \<Rightarrow> ('a, 'w) world \<Rightarrow> outcome \<times> ('a, 'w) world" where
  "Panicln w v s =
     (if lvl w \<ge> currLvl s then
        let s = emit (FormatCall (lvl w) v) s;
            v = Format (formatter w) (lvl w) v;
            s = emit (GetSuffixCall (lvl w)) s;
            v = v @ [StringVal (GetSuffix (formatter w) (lvl w))]
        in logger_call (logger w) LPanicln None v s
      else (Returns, s))"

lemmas op_defs = Print_def Printf_def Println_def Fatal_def Fatalf_def Fatalln_def
  Panic_def Panicf_def Panicln_def

section \<open>Logger and New (logger.go, lines 47-86)\<close>

text \<open>
  Modelled from the spec: \<^verbatim>\<open>DefaultFormatter\<close>, declared outside logger.go. The spec
  says of it: GetPrefix and GetSuffix return the empty string for every level, and Format
  returns the arguments unchanged.
\<close>

definition DefaultFormatter :: "'a Formatter" where
  "DefaultFormatter = \<lparr>Format = (\<lambda>l v. v), GetPrefix = (\<lambda>l. []), GetSuffix = (\<lambda>l. [])\<rparr>"

text \<open>The five fields \<^verbatim>\<open>DEBUG\<close> .. \<^verbatim>\<open>FATAL\<close> of the struct \<^verbatim>\<open>Logger\<close>.\<close>

record ('a, 'w) Logger =
  Logger_DEBUG :: "('a, 'w) Wrapper"
  Logger_INFO :: "('a, 'w) Wrapper"
  Logger_WARNING :: "('a, 'w) Wrapper"
  Logger_ERROR :: "('a, 'w) Wrapper"
  Logger_FATAL :: "('a, 'w) Wrapper"

text \<open>
  A \<^verbatim>\<open>nil\<close> argument is \<open>None\<close>. Lines 75-77 give the level tag \<^verbatim>\<open>INFO\<close> to the
  warning, error and fatal wrappers.
\<close>

definition New ::
  "'w writer option \<Rightarrow> 'w writer option \<Rightarrow> 'a Formatter option \<Rightarrow> ('a, 'w) Logger" where
  "New out errOut f =
     (let out = (case out of None \<Rightarrow> os_Stdout | Some x \<Rightarrow> x);
          errOut = (case errOut of None \<Rightarrow> os_Stderr | Some x \<Rightarrow> x);
          f = (case f of None \<Rightarrow> DefaultFormatter | Some g \<Rightarrow> g);
          debug = \<lparr>lvl = DEBUG, formatter = f,
                    logger = log_New out (GetPrefix f DEBUG @ prefix_at DEBUG) flag\<rparr>;
          info = \<lparr>lvl = INFO, formatter = f,
                   logger = log_New out (GetPrefix f INFO @ prefix_at INFO) flag\<rparr>;
          warning = \<lparr>lvl = INFO, formatter = f,
                      logger = log_New out (GetPrefix f WARNING @ prefix_at WARNING) flag\<rparr>;
          errLogger = \<lparr>lvl = INFO, formatter = f,
                        logger = log_New errOut (GetPrefix f ERROR @ prefix_at ERROR) flag\<rparr>;
          fatal = \<lparr>lvl = INFO, formatter = f,
                    logger = log_New errOut (GetPrefix f FATAL @ prefix_at FATAL) flag\<rparr>
      in \<lparr>Logger_DEBUG = debug, Logger_INFO = info, Logger_WARNING = warning,
          Logger_ERROR = errLogger, Logger_FATAL = fatal\<rparr>)"
section \<open>Calls and what they add to the trace\<close>

text \<open>A call of one of the nine operations, with its arguments.\<close>

datatype 'a call =
  CPrint "'a iface list" | CPrintf string "'a iface list" | CPrintln "'a iface list"
  | CFatal "'a iface list" | CFatalf string "'a iface list" | CFatalln "'a iface list"
  | CPanic "'a iface list" | CPanicf string "'a iface list" | CPanicln "'a iface list"

fun invoke :: "('a, 'w) Wrapper \<Rightarrow> 'a call \<Rightarrow> ('a, 'w) world \<Rightarrow> outcome \<times> ('a, 'w) world" where
  "invoke w (CPrint v) s = Print w v s"
| "invoke w (CPrintf f v) s = Printf w f v s"
| "invoke w (CPrintln v) s = Println w v s"
| "invoke w (CFatal v) s = Fatal w v s"
| "invoke w (CFatalf f v) s = Fatalf w f v s"
| "invoke w (CFatalln v) s = Fatalln w v s"
| "invoke w (CPanic v) s = Panic w v s"
| "invoke w (CPanicf f v) s = Panicf w f v s"
| "invoke w (CPanicln v) s = Panicln w v s"

text \<open>The events that one call adds to the trace, and those of them that reach a logger.\<close>

definition new_events :: "('a, 'w) Wrapper \<Rightarrow> 'a call \<Rightarrow> ('a, 'w) world \<Rightarrow> ('a, 'w) event list" where
  "new_events w c s = drop (length (trace s)) (trace (snd (invoke w c s)))"

fun is_write :: "('a, 'w) event \<Rightarrow> bool" where
  "is_write (LoggerCall lg p fmt v) = True"
| "is_write _ = False"

definition writes :: "('a, 'w) Wrapper \<Rightarrow> 'a call \<Rightarrow> ('a, 'w) world \<Rightarrow> ('a, 'w) event list" where
  "writes w c s = filter is_write (new_events w c s)"

text \<open>The arguments of a call, and its format string when it has one.\<close>

fun call_args :: "'a call \<Rightarrow> 'a iface list" where
  "call_args (CPrint v) = v"
| "call_args (CPrintf f v) = v"
| "call_args (CPrintln v) = v"
| "call_args (CFatal v) = v"
| "call_args (CFatalf f v) = v"
| "call_args (CFatalln v) = v"
| "call_args (CPanic v) = v"
| "call_args (CPanicf f v) = v"
| "call_args (CPanicln v) = v"

fun call_format :: "'a call \<Rightarrow> string option" where
  "call_format (CPrintf f v) = Some f"
| "call_format (CFatalf f v) = Some f"
| "call_format (CPanicf f v) = Some f"
| "call_format _ = None"

text \<open>The destinations that a list of events writes to, in order.\<close>

fun event_dest :: "('a, 'w) event \<Rightarrow> 'w writer list" where
  "event_dest (LoggerCall lg p fmt v) = [dest lg]"
| "event_dest _ = []"

definition written_to :: "('a, 'w) event list \<Rightarrow> 'w writer list" where
  "written_to evs = concat (map event_dest evs)"

text \<open>
  A formatter for examples, not part of the package: it puts a marker before the
  arguments, and both its prefix and its suffix carry text, the suffix a percent sign.
\<close>

definition percent_formatter :: "'a Formatter" where
  "percent_formatter =
     \<lparr>Format = (\<lambda>l v. StringVal ''at '' # v), GetPrefix = (\<lambda>l. ''<''), GetSuffix = (\<lambda>l. ''100%'')\<rparr>"

text \<open>
  The state after a sequence of calls, each on a wrapper of its own, made one after the
  other. The state is threaded through whatever the outcome of a call, so this covers a
  caller that recovers from a panic and goes on.
\<close>

fun after_calls :: "(('a, 'w) Wrapper \<times> 'a call) list \<Rightarrow> ('a, 'w) world \<Rightarrow> ('a, 'w) world" where
  "after_calls [] s = s"
| "after_calls ((w, c) # rest) s = after_calls rest (snd (invoke w c s))"

section \<open>How the line logger reads a format string\<close>

text \<open>
  The line logger's \<^verbatim>\<open>Printf\<close>, \<^verbatim>\<open>Fatalf\<close> and \<^verbatim>\<open>Panicf\<close> hand the format string and the
  arguments to the standard library's \<^verbatim>\<open>fmt.Sprintf\<close>; the other six primitives take no
  format string and print their arguments as operands. \<^verbatim>\<open>Sprintf\<close> goes through the format
  string from left to right: it copies characters to the output up to the next percent
  sign, and at a percent sign it reads one directive (flags, width, precision and verb)
  and formats according to it; then it goes on behind the directive. So the format string
  falls into pieces, literal text and directives. How many characters behind the percent
  sign belong to a directive is the library's business and is left open here: it is the
  parameter \<open>d\<close>, a function of the text behind the percent sign.
\<close>

datatype piece = Literal string | Directive string

fun piece_text :: "piece \<Rightarrow> string" where
  "piece_text (Literal t) = t"
| "piece_text (Directive t) = t"

function scan :: "(string \<Rightarrow> nat) \<Rightarrow> string \<Rightarrow> piece list" where
  "scan d [] = []"
| "scan d (c # cs) =
     (if c = CHR ''%'' then
        Directive (c # take (d cs) cs) # scan d (drop (d cs) cs)
      else
        Literal (takeWhile (\<lambda>x. x \<noteq> CHR ''%'') (c # cs))
          # scan d (dropWhile (\<lambda>x. x \<noteq> CHR ''%'') (c # cs)))"
  by pat_completeness auto
termination
  by (relation "measure (\<lambda>(d, f). length f)")
    (auto simp: less_Suc_eq_le length_dropWhile_le)

text \<open>The piece that the character at position \<open>k\<close> of the format string belongs to.\<close>

fun piece_at :: "piece list \<Rightarrow> nat \<Rightarrow> piece option" where
  "piece_at [] k = None"
| "piece_at (p # ps) k =
     (if k < length (piece_text p) then Some p else piece_at ps (k - length (piece_text p)))"

text \<open>
  What the primitive called in an event reads as format string: the pieces of its format
  string when it has one, nothing otherwise.
\<close>

fun read_format :: "(string \<Rightarrow> nat) \<Rightarrow> ('a, 'w) event \<Rightarrow> piece list" where
  "read_format d (LoggerCall lg p (Some f) v) = scan d f"
| "read_format d _ = []"

text \<open>The text that a reading copies to the output as it stands: that of the literal pieces.\<close>

fun literal_text :: "piece \<Rightarrow> string" where
  "literal_text (Literal t) = t"
| "literal_text (Directive t) = []"

text \<open>The arguments that an event hands to a logger primitive.\<close>

fun event_args :: "('a, 'w) event \<Rightarrow> 'a iface list" where
  "event_args (LoggerCall lg p fmt v) = v"
| "event_args _ = []"

section \<open>The lock around the threshold (logger.go, lines 30, 41-45, 97-99)\<close>

text \<open>
  Several goroutines run package functions at once. What each of them does to the
  mutex \<^verbatim>\<open>mu\<close> and to \<^verbatim>\<open>currLvl\<close> is a sequence of atomic actions, in program order:
  \<^item> every wrapper operation starts with \<^verbatim>\<open>mu.RLock()\<close>, \<^verbatim>\<open>mu.RUnlock()\<close>, and then reads
    \<^verbatim>\<open>currLvl\<close> in its \<^verbatim>\<open>if\<close> (lines 97-99 and the same three lines in the other eight);
  \<^item> \<^verbatim>\<open>SetLevel(l)\<close> does \<^verbatim>\<open>mu.Lock()\<close>, writes \<^verbatim>\<open>currLvl\<close>, and the deferred
    \<^verbatim>\<open>mu.Unlock()\<close> runs when it returns (lines 42-44).
\<close>

datatype act = A_RLock | A_RUnlock | A_Lock | A_Unlock | A_Read | A_Write level

definition reader_acts :: "act list" where
  "reader_acts = [A_RLock, A_RUnlock, A_Read]"

definition SetLevel_acts :: "level \<Rightarrow> act list" where
  "SetLevel_acts l = [A_Lock, A_Write l, A_Unlock]"

text \<open>
  A configuration: the state of the \<^verbatim>\<open>sync.RWMutex\<close> (how many readers hold it, whether a
  writer holds it), the value of \<^verbatim>\<open>currLvl\<close>, what each goroutine has left to do, and the
  values that reads have seen, with the goroutine that read.
\<close>

record conc =
  mu_readers :: nat
  mu_writer :: bool
  cell :: level
  threads :: "act list list"
  reads :: "(nat \<times> level) list"

definition start :: "act list list \<Rightarrow> conc" where
  "start ts = \<lparr>mu_readers = 0, mu_writer = False, cell = INFO, threads = ts, reads = []\<rparr>"

text \<open>
  The mutex can be held by any number of readers or by one writer: \<^verbatim>\<open>RLock\<close> waits while
  a writer holds it, \<^verbatim>\<open>Lock\<close> waits while anyone holds it. An unlock of a mutex that is
  not held that way is a run-time error and has no successor here. Reading and writing the
  variable is always possible.
\<close>

fun enabled :: "conc \<Rightarrow> act \<Rightarrow> bool" where
  "enabled c A_RLock = (\<not> mu_writer c)"
| "enabled c A_RUnlock = (0 < mu_readers c)"
| "enabled c A_Lock = (\<not> mu_writer c \<and> mu_readers c = 0)"
| "enabled c A_Unlock = mu_writer c"
| "enabled c A_Read = True"
| "enabled c (A_Write l) = True"

fun perform :: "nat \<Rightarrow> act \<Rightarrow> conc \<Rightarrow> conc" where
  "perform i A_RLock c = c\<lparr>mu_readers := Suc (mu_readers c)\<rparr>"
| "perform i A_RUnlock c = c\<lparr>mu_readers := mu_readers c - 1\<rparr>"
| "perform i A_Lock c = c\<lparr>mu_writer := True\<rparr>"
| "perform i A_Unlock c = c\<lparr>mu_writer := False\<rparr>"
| "perform i A_Read c = c\<lparr>reads := reads c @ [(i, cell c)]\<rparr>"
| "perform i (A_Write l) c = c\<lparr>cell := l\<rparr>"

text \<open>Goroutine \<open>i\<close> takes its next action, if it has one and the action is enabled.\<close>

definition step :: "nat \<Rightarrow> conc \<Rightarrow> conc option" where
  "step i c =
     (if i < length (threads c) then
        (case threads c ! i of
           [] \<Rightarrow> None
         | a # rest \<Rightarrow>
             if enabled c a then Some ((perform i a c)\<lparr>threads := (threads c)[i := rest]\<rparr>)
             else None)
      else None)"

text \<open>A schedule is the list of goroutines that step, in order.\<close>

fun run :: "nat list \<Rightarrow> conc \<Rightarrow> conc option" where
  "run [] c = Some c"
| "run (i # sched) c = (case step i c of None \<Rightarrow> None | Some c' \<Rightarrow> run sched c')"

text \<open>
  Two accesses to the variable conflict when at least one of them writes. A configuration
  has a data race when the next actions of two different goroutines are conflicting
  accesses: both can happen now, in either order, and no lock operation lies between them.
\<close>

fun conflicting :: "act \<Rightarrow> act \<Rightarrow> bool" where
  "conflicting (A_Write l) (A_Write m) = True"
| "conflicting (A_Write l) A_Read = True"
| "conflicting A_Read (A_Write l) = True"
| "conflicting _ _ = False"

fun conflict_in :: "act list \<Rightarrow> bool" where
  "conflict_in [] = False"
| "conflict_in (a # as) = (list_ex (conflicting a) as \<or> conflict_in as)"

definition race :: "conc \<Rightarrow> bool" where
  "race c = conflict_in (concat (map (take 1) (threads c)))"

text \<open>A goroutine inside \<^verbatim>\<open>SetLevel\<close>, between its \<^verbatim>\<open>Lock\<close> and the end of its \<^verbatim>\<open>Unlock\<close>.\<close>

fun holding :: "act list \<Rightarrow> bool" where
  "holding [A_Write l, A_Unlock] = True"
| "holding [A_Unlock] = True"
| "holding _ = False"

text \<open>What a goroutine that started as a wrapper operation or as \<^verbatim>\<open>SetLevel\<close> can have left.\<close>

definition wf_thread :: "act list \<Rightarrow> bool" where
  "wf_thread t \<longleftrightarrow>
     t \<in> {reader_acts, [A_RUnlock, A_Read], [A_Read], []} \<or>
     (\<exists>l. t \<in> {SetLevel_acts l, [A_Write l, A_Unlock], [A_Unlock]})"

definition lock_inv :: "conc \<Rightarrow> bool" where
  "lock_inv c \<longleftrightarrow>
     (\<forall>i < length (threads c). wf_thread (threads c ! i)) \<and>
     (\<forall>i < length (threads c). \<forall>j < length (threads c).
        holding (threads c ! i) \<and> holding (threads c ! j) \<longrightarrow> i = j) \<and>
     ((\<exists>i < length (threads c). holding (threads c ! i)) \<longrightarrow> mu_writer c)"

section \<open>Properties\<close>

lemma written_to_own: "set (written_to (new_events w c s)) \<subseteq> {dest (logger w)}"
  by (cases c)
    (simp_all add: written_to_def new_events_def op_defs logger_call_def emit_def Let_def)

lemma invoke_drop: "lvl w < currLvl s \<Longrightarrow> invoke w c s = (Returns, s)"
  by (cases c) (simp_all add: op_defs)

lemma new_events_drop: "lvl w < currLvl s \<Longrightarrow> new_events w c s = []"
  by (simp add: new_events_def invoke_drop)

lemma writes_pass: "currLvl s \<le> lvl w \<Longrightarrow> \<exists>p fmt v. writes w c s = [LoggerCall (logger w) p fmt v]"
  by (cases c)
    (simp_all add: writes_def new_events_def op_defs logger_call_def emit_def Let_def)

lemma writes_nonempty_iff: "writes w c s \<noteq> [] \<longleftrightarrow> currLvl s \<le> lvl w"
proof (cases "currLvl s \<le> lvl w")
  case True
  then show ?thesis
    using writes_pass [OF True, of c] by auto
next
  case False
  then have "lvl w < currLvl s" by simp
  then show ?thesis
    by (simp add: writes_def new_events_drop)
qed

lemma invoke_currLvl: "currLvl (snd (invoke w c s)) = currLvl s"
  by (cases c) (simp_all add: op_defs logger_call_def emit_def Let_def)

lemma after_calls_currLvl: "currLvl (after_calls cs s) = currLvl s"
proof (induction cs arbitrary: s)
  case Nil
  then show ?case by simp
next
  case (Cons wc cs)
  obtain w c where wc: "wc = (w, c)" by (cases wc)
  show ?case by (simp add: wc Cons.IH invoke_currLvl)
qed

lemma scan_concat: "concat (map piece_text (scan d f)) = f"
  by (induction d f rule: scan.induct) auto

lemma scan_literal: "Literal t \<in> set (scan d f) \<Longrightarrow> CHR ''%'' \<notin> set t"
  by (induction d f rule: scan.induct) (auto split: if_splits dest: set_takeWhileD)

lemma scan_literal_text: "CHR ''%'' \<notin> set (concat (map literal_text (scan d f)))"
proof
  assume "CHR ''%'' \<in> set (concat (map literal_text (scan d f)))"
  then obtain p where p: "p \<in> set (scan d f)" "CHR ''%'' \<in> set (literal_text p)"
    by auto
  show False
  proof (cases p)
    case (Literal t)
    with p have "Literal t \<in> set (scan d f)" "CHR ''%'' \<in> set t" by simp_all
    then show False using scan_literal by blast
  next
    case (Directive t)
    with p show False by simp
  qed
qed

lemma piece_at_char:
  "k < length (concat (map piece_text ps)) \<Longrightarrow>
   \<exists>p. piece_at ps k = Some p \<and> p \<in> set ps \<and> concat (map piece_text ps) ! k \<in> set (piece_text p)"
proof (induction ps arbitrary: k)
  case Nil
  then show ?case by simp
next
  case (Cons q ps)
  show ?case
  proof (cases "k < length (piece_text q)")
    case True
    then show ?thesis by (simp add: nth_append)
  next
    case False
    with Cons.prems have "k - length (piece_text q) < length (concat (map piece_text ps))"
      by simp
    from Cons.IH [OF this] False show ?thesis
      by (auto simp: nth_append)
  qed
qed

text \<open>
  However directives are delimited, a percent sign of the format string is never in a
  piece of literal text: the piece it belongs to is a directive.
\<close>

lemma percent_in_directive:
  assumes "k < length f" and "f ! k = CHR ''%''"
  shows "\<exists>t. piece_at (scan d f) k = Some (Directive t)"
proof -
  from assms(1) have "k < length (concat (map piece_text (scan d f)))"
    by (simp add: scan_concat)
  from piece_at_char [OF this] obtain p where p: "piece_at (scan d f) k = Some p"
    "p \<in> set (scan d f)" "f ! k \<in> set (piece_text p)"
    by (auto simp: scan_concat)
  show ?thesis
  proof (cases p)
    case (Literal t)
    with p assms(2) scan_literal [of t d f] show ?thesis by simp
  next
    case (Directive t)
    with p show ?thesis by simp
  qed
qed

text \<open>
  The guard of the nine operations. Whatever level tag \<open>lvl w\<close> a wrapper carries, an
  operation on it writes to its line logger if and only if the tag reaches the threshold;
  when the tag is below the threshold the call returns at once and leaves the process
  state as it was: nothing is added to the trace, so no formatter method is called and no
  logger primitive is called.
\<close>

lemma wrapper_threshold_filter:
  "(writes w c s \<noteq> [] \<longleftrightarrow> lvl w \<ge> currLvl s) \<and>
   (lvl w < currLvl s \<longrightarrow> invoke w c s = (Returns, s) \<and> new_events w c s = [])"
  by (simp add: writes_nonempty_iff invoke_drop new_events_drop)

text \<open>
  C1, evaluated on the code. The wrappers that New constructs for WARNING, ERROR and FATAL
  do not write exactly when their level reaches the threshold. With the threshold set to
  WARNING, \<^verbatim>\<open>Print("x")\<close> on the warning wrapper and on the error wrapper of a default
  logger writes nothing, though WARNING and ERROR reach WARNING; with the threshold set to
  ERROR the same holds of the fatal wrapper. With the threshold set to DEBUG and at its
  default INFO, the debug and info wrappers do follow their own level.
\<close>

theorem C1_constructed_level_not_compared:
  "WARNING \<ge> WARNING \<and>
   writes (Logger_WARNING (New None None None)) (CPrint [StringVal ''x''])
     (SetLevel WARNING (init_world :: (unit, unit) world)) = [] \<and>
   ERROR \<ge> WARNING \<and>
   writes (Logger_ERROR (New None None None)) (CPrint [StringVal ''x''])
     (SetLevel WARNING (init_world :: (unit, unit) world)) = [] \<and>
   FATAL \<ge> ERROR \<and>
   writes (Logger_FATAL (New None None None)) (CPrint [StringVal ''x''])
     (SetLevel ERROR (init_world :: (unit, unit) world)) = [] \<and>
   writes (Logger_ERROR (New None None None)) (CPrint [StringVal ''x''])
     (init_world :: (unit, unit) world)
     = [LoggerCall \<lparr>dest = os_Stderr, lprefix = ''ERROR: '', lflag = 3\<rparr> LPrint None
          [StringVal ''x'', StringVal []]] \<and>
   \<not> DEBUG \<ge> INFO \<and>
   writes (Logger_DEBUG (New None None None)) (CPrint [StringVal ''x''])
     (init_world :: (unit, unit) world) = [] \<and>
   writes (Logger_DEBUG (New None None None)) (CPrint [StringVal ''x''])
     (SetLevel DEBUG (init_world :: (unit, unit) world))
     = [LoggerCall \<lparr>dest = os_Stdout, lprefix = ''DEBUG: '', lflag = 3\<rparr> LPrint None
          [StringVal ''x'', StringVal []]]"
  by (simp add: writes_def new_events_def op_defs New_def Let_def init_world_def SetLevel_def
      logger_call_def emit_def log_New_def DefaultFormatter_def prefix_at_def prefix_def
      flag_def Ldate_def Ltime_def level_defs)

text \<open>
  C2. In the logger that New returns, the warning, error and fatal wrappers carry the
  level tag INFO, which is none of their own levels; the debug and info wrappers carry
  their own. So each of the three writes exactly when INFO reaches the threshold.
\<close>

theorem C2_level_tags:
  "lvl (Logger_WARNING (New out errOut f)) = INFO \<and>
   lvl (Logger_ERROR (New out errOut f)) = INFO \<and>
   lvl (Logger_FATAL (New out errOut f)) = INFO \<and>
   INFO \<noteq> WARNING \<and> INFO \<noteq> ERROR \<and> INFO \<noteq> FATAL \<and>
   lvl (Logger_DEBUG (New out errOut f)) = DEBUG \<and>
   lvl (Logger_INFO (New out errOut f)) = INFO \<and>
   (writes (Logger_WARNING (New out errOut f)) c s \<noteq> [] \<longleftrightarrow> INFO \<ge> currLvl s) \<and>
   (writes (Logger_ERROR (New out errOut f)) c s \<noteq> [] \<longleftrightarrow> INFO \<ge> currLvl s) \<and>
   (writes (Logger_FATAL (New out errOut f)) c s \<noteq> [] \<longleftrightarrow> INFO \<ge> currLvl s)"
  by (simp add: writes_nonempty_iff) (simp add: New_def Let_def level_defs)

text \<open>
  C3, evaluated on the code. With the default threshold, \<^verbatim>\<open>Panic("x")\<close> on the info
  wrapper of a default logger calls the line logger's \<^verbatim>\<open>Fatal\<close> primitive, which exits
  the process; \<^verbatim>\<open>Panicln\<close> and \<^verbatim>\<open>Panicf\<close> on the same wrapper call the primitives of
  their own names, which panic.
\<close>

theorem C3_Panic_calls_Fatal:
  "invoke (Logger_INFO (New None None None)) (CPanic [StringVal ''x''])
       (init_world :: (unit, unit) world)
     = (Exits,
        \<lparr>currLvl = INFO,
         trace = [FormatCall INFO [StringVal ''x''], GetSuffixCall INFO,
                  LoggerCall \<lparr>dest = os_Stdout, lprefix = ''INFO: '', lflag = 3\<rparr> LFatal None
                    [StringVal ''x'', StringVal []]]\<rparr>) \<and>
   writes (Logger_INFO (New None None None)) (CPanicln [StringVal ''x''])
       (init_world :: (unit, unit) world)
     = [LoggerCall \<lparr>dest = os_Stdout, lprefix = ''INFO: '', lflag = 3\<rparr> LPanicln None
          [StringVal ''x'', StringVal []]] \<and>
   writes (Logger_INFO (New None None None)) (CPanicf ''x'' [])
       (init_world :: (unit, unit) world)
     = [LoggerCall \<lparr>dest = os_Stdout, lprefix = ''INFO: '', lflag = 3\<rparr> LPanicf
          (Some ''%sx'') []]"
  by (simp add: writes_def new_events_def op_defs New_def Let_def init_world_def
      logger_call_def emit_def log_New_def DefaultFormatter_def prefix_at_def prefix_def
      flag_def Ldate_def Ltime_def level_defs)

text \<open>
  C4. The threshold is one field of the process state and starts as INFO. SetLevel
  overwrites it and touches nothing else. No wrapper operation changes it, and a wrapper
  holds no threshold of its own. So after \<open>SetLevel W\<close>, and after any further sequence of
  operations on any wrappers, the threshold is still \<open>W\<close>, and the next operation on any
  wrapper writes exactly when the wrapper's level tag reaches \<open>W\<close>, whatever the threshold
  was before.
\<close>

theorem C4_SetLevel_process_wide:
  "currLvl (init_world :: ('a, 'w) world) = INFO \<and>
   currLvl (SetLevel W s) = W \<and>
   trace (SetLevel W s) = trace s \<and>
   currLvl (snd (invoke w c s)) = currLvl s \<and>
   currLvl (after_calls cs (SetLevel W s)) = W \<and>
   (writes w c (SetLevel W s) \<noteq> [] \<longleftrightarrow> lvl w \<ge> W) \<and>
   (writes w c (after_calls cs (SetLevel W s)) \<noteq> [] \<longleftrightarrow> lvl w \<ge> W)"
proof -
  have "currLvl (after_calls cs (SetLevel W s)) = currLvl (SetLevel W s)"
    by (rule after_calls_currLvl)
  then have "currLvl (after_calls cs (SetLevel W s)) = W"
    by (simp add: SetLevel_def)
  then show ?thesis
    by (simp add: writes_nonempty_iff invoke_currLvl) (simp add: SetLevel_def init_world_def)
qed

text \<open>
  C5. In the logger that New returns, the line loggers of the debug, info and warning
  wrappers are bound to the standard destination (\<open>out\<close>, or the process's standard output
  when \<open>out\<close> is nil), those of the error and fatal wrappers to the error destination
  (\<open>errOut\<close>, or the process's standard error when it is nil); and whatever operation is
  called on one of them, in whatever state, it writes to no destination but its own.
\<close>

theorem C5_destinations:
  "(let L = New out errOut f;
        std = (case out of None \<Rightarrow> os_Stdout | Some x \<Rightarrow> x);
        err = (case errOut of None \<Rightarrow> os_Stderr | Some x \<Rightarrow> x)
    in dest (logger (Logger_DEBUG L)) = std \<and>
       dest (logger (Logger_INFO L)) = std \<and>
       dest (logger (Logger_WARNING L)) = std \<and>
       dest (logger (Logger_ERROR L)) = err \<and>
       dest (logger (Logger_FATAL L)) = err \<and>
       set (written_to (new_events (Logger_DEBUG L) c s)) \<subseteq> {std} \<and>
       set (written_to (new_events (Logger_INFO L) c s)) \<subseteq> {std} \<and>
       set (written_to (new_events (Logger_WARNING L) c s)) \<subseteq> {std} \<and>
       set (written_to (new_events (Logger_ERROR L) c s)) \<subseteq> {err} \<and>
       set (written_to (new_events (Logger_FATAL L) c s)) \<subseteq> {err})"
proof -
  have d: "dest (logger (Logger_DEBUG (New out errOut f))) = (case out of None \<Rightarrow> os_Stdout | Some x \<Rightarrow> x)"
    "dest (logger (Logger_INFO (New out errOut f))) = (case out of None \<Rightarrow> os_Stdout | Some x \<Rightarrow> x)"
    "dest (logger (Logger_WARNING (New out errOut f))) = (case out of None \<Rightarrow> os_Stdout | Some x \<Rightarrow> x)"
    "dest (logger (Logger_ERROR (New out errOut f))) = (case errOut of None \<Rightarrow> os_Stderr | Some x \<Rightarrow> x)"
    "dest (logger (Logger_FATAL (New out errOut f))) = (case errOut of None \<Rightarrow> os_Stderr | Some x \<Rightarrow> x)"
    by (simp_all add: New_def Let_def log_New_def)
  show ?thesis
    unfolding Let_def
    using written_to_own [of "Logger_DEBUG (New out errOut f)" c s]
      written_to_own [of "Logger_INFO (New out errOut f)" c s]
      written_to_own [of "Logger_WARNING (New out errOut f)" c s]
      written_to_own [of "Logger_ERROR (New out errOut f)" c s]
      written_to_own [of "Logger_FATAL (New out errOut f)" c s]
    by (simp only: d)
qed

text \<open>
  C6. When the wrapper's level passes the threshold: an operation without a format string
  calls Format on its arguments, then GetSuffix, and forwards to a logger primitive the
  formatted arguments followed by the suffix as one more argument, with no format string;
  an operation with format string \<open>fmt\<close> forwards the format string
  \<open>''%s'' @ fmt @ suffix\<close> together with the formatted arguments.
\<close>

theorem C6_decoration:
  assumes "currLvl s \<le> lvl w"
  shows "(call_format c = None \<longrightarrow>
            (\<exists>p. new_events w c s =
               [FormatCall (lvl w) (call_args c), GetSuffixCall (lvl w),
                LoggerCall (logger w) p None
                  (Format (formatter w) (lvl w) (call_args c)
                     @ [StringVal (GetSuffix (formatter w) (lvl w))])])) \<and>
         (\<forall>fmt. call_format c = Some fmt \<longrightarrow>
            (\<exists>p. writes w c s =
               [LoggerCall (logger w) p
                  (Some (''%s'' @ fmt @ GetSuffix (formatter w) (lvl w)))
                  (Format (formatter w) (lvl w) (call_args c))]))"
  using assms
  by (cases c)
    (simp_all add: writes_def new_events_def op_defs logger_call_def emit_def Let_def)

theorem C6_decoration_witness:
  "currLvl (init_world :: (unit, unit) world) \<le> lvl (Logger_INFO (New None None (Some percent_formatter))) \<and>
   (\<exists>p. new_events (Logger_INFO (New None None (Some percent_formatter)))
          (CPrintln [StringVal ''a'', OtherVal ()]) (init_world :: (unit, unit) world)
        = [FormatCall INFO [StringVal ''a'', OtherVal ()], GetSuffixCall INFO,
           LoggerCall \<lparr>dest = os_Stdout, lprefix = ''<INFO: '', lflag = 3\<rparr> p None
             [StringVal ''at '', StringVal ''a'', OtherVal (), StringVal ''100%'']]) \<and>
   (\<exists>p. writes (Logger_INFO (New None None (Some percent_formatter)))
          (CFatalf ''%s=%v'' [StringVal ''a'', OtherVal ()]) (init_world :: (unit, unit) world)
        = [LoggerCall \<lparr>dest = os_Stdout, lprefix = ''<INFO: '', lflag = 3\<rparr> p
             (Some ''%s%s=%v100%'')
             [StringVal ''at '', StringVal ''a'', OtherVal ()]])"
  using C6_decoration [of "init_world :: (unit, unit) world"
      "Logger_INFO (New None None (Some percent_formatter))"
      "CPrintln [StringVal ''a'', OtherVal ()]"]
    C6_decoration [of "init_world :: (unit, unit) world"
      "Logger_INFO (New None None (Some percent_formatter))"
      "CFatalf ''%s=%v'' [StringVal ''a'', OtherVal ()]"]
  by (simp add: New_def Let_def init_world_def log_New_def percent_formatter_def
      prefix_at_def prefix_def flag_def Ldate_def Ltime_def level_defs)

text \<open>
  C7. New is a total function: for every combination of arguments, nil or not, it returns
  a logger. A nil \<open>out\<close> stands for the process's standard output, a nil \<open>errOut\<close> for its
  standard error, a nil formatter for DefaultFormatter; New of any arguments is New of
  the arguments so completed, and arguments that are not nil reach the wrappers unchanged.
\<close>

theorem C7_New_defaults:
  "(let std = (case out of None \<Rightarrow> os_Stdout | Some x \<Rightarrow> x);
        err = (case errOut of None \<Rightarrow> os_Stderr | Some x \<Rightarrow> x);
        fm = (case f of None \<Rightarrow> DefaultFormatter | Some g \<Rightarrow> g);
        L = New out errOut f
    in New out errOut f = New (Some std) (Some err) (Some fm) \<and>
       formatter (Logger_DEBUG L) = fm \<and> formatter (Logger_INFO L) = fm \<and>
       formatter (Logger_WARNING L) = fm \<and> formatter (Logger_ERROR L) = fm \<and>
       formatter (Logger_FATAL L) = fm \<and>
       dest (logger (Logger_DEBUG L)) = std \<and> dest (logger (Logger_INFO L)) = std \<and>
       dest (logger (Logger_WARNING L)) = std \<and>
       dest (logger (Logger_ERROR L)) = err \<and> dest (logger (Logger_FATAL L)) = err)"
  by (simp add: New_def Let_def log_New_def)

text \<open>
  C8. For each of the five levels, the line logger of the wrapper that New builds for it
  has as static prefix the formatter's GetPrefix of that level followed by the level's
  name, a colon and a space.
\<close>

theorem C8_static_prefix:
  "(let fm = (case f of None \<Rightarrow> DefaultFormatter | Some g \<Rightarrow> g);
        L = New out errOut f
    in lprefix (logger (Logger_DEBUG L)) = GetPrefix fm DEBUG @ ''DEBUG: '' \<and>
       lprefix (logger (Logger_INFO L)) = GetPrefix fm INFO @ ''INFO: '' \<and>
       lprefix (logger (Logger_WARNING L)) = GetPrefix fm WARNING @ ''WARNING: '' \<and>
       lprefix (logger (Logger_ERROR L)) = GetPrefix fm ERROR @ ''ERROR: '' \<and>
       lprefix (logger (Logger_FATAL L)) = GetPrefix fm FATAL @ ''FATAL: '')"
  by (simp add: New_def Let_def log_New_def prefix_at_def prefix_def level_defs)

text \<open>
  C10. When the wrapper's level passes the threshold, Printf, Fatalf and Panicf make one
  call of a line-logger primitive. Its format string is \<open>''%s'' @ fmt @ suffix\<close>, so it
  ends in the formatter's suffix, and its arguments are the formatted arguments and nothing
  more: the suffix is not among them. And however the logger delimits a directive, every
  percent sign of the suffix lies, in the logger's reading of that format string, in a
  directive and not in literal text: no percent sign is copied to the output as it stands.
\<close>

theorem C10_suffix_in_format:
  assumes "currLvl s \<le> lvl w"
    and "c = CPrintf fmt v \<or> c = CFatalf fmt v \<or> c = CPanicf fmt v"
    and "j < length (GetSuffix (formatter w) (lvl w))"
    and "GetSuffix (formatter w) (lvl w) ! j = CHR ''%''"
  shows "\<exists>p t. writes w c s =
             [LoggerCall (logger w) p (Some (''%s'' @ fmt @ GetSuffix (formatter w) (lvl w)))
                (Format (formatter w) (lvl w) v)] \<and>
           read_format d (hd (writes w c s)) =
             scan d (''%s'' @ fmt @ GetSuffix (formatter w) (lvl w)) \<and>
           event_args (hd (writes w c s)) = Format (formatter w) (lvl w) v \<and>
           piece_at (read_format d (hd (writes w c s))) (2 + length fmt + j) = Some (Directive t) \<and>
           CHR ''%'' \<notin> set (concat (map literal_text (read_format d (hd (writes w c s)))))"
proof -
  let ?sfx = "GetSuffix (formatter w) (lvl w)"
  let ?f = "''%s'' @ fmt @ ?sfx"
  from assms(1,2) obtain p where
    w: "writes w c s = [LoggerCall (logger w) p (Some ?f) (Format (formatter w) (lvl w) v)]"
    by (auto simp: writes_def new_events_def op_defs logger_call_def emit_def Let_def)
  have k: "2 + length fmt + j < length ?f" using assms(3) by simp
  have "?f ! (2 + length fmt + j) = ?sfx ! j"
    using nth_append_length_plus [of "''%s'' @ fmt" ?sfx j] by (simp add: add.commute)
  then have "?f ! (2 + length fmt + j) = CHR ''%''" using assms(4) by simp
  from percent_in_directive [OF k this, of d] obtain t where
    pa: "piece_at (scan d ?f) (2 + length fmt + j) = Some (Directive t)" by blast
  have rf: "read_format d (hd (writes w c s)) = scan d ?f"
    by (simp only: w list.sel read_format.simps)
  have ea: "event_args (hd (writes w c s)) = Format (formatter w) (lvl w) v"
    by (simp only: w list.sel event_args.simps)
  have pa': "piece_at (read_format d (hd (writes w c s))) (2 + length fmt + j) = Some (Directive t)"
    by (simp only: rf pa)
  have lt: "CHR ''%'' \<notin> set (concat (map literal_text (read_format d (hd (writes w c s)))))"
    unfolding rf by (rule scan_literal_text)
  from w rf ea pa' lt show ?thesis by blast
qed

theorem C10_suffix_in_format_witness:
  "currLvl (init_world :: (unit, unit) world) \<le> lvl (Logger_INFO (New None None (Some percent_formatter))) \<and>
   (3::nat) < length (GetSuffix (percent_formatter :: unit Formatter) INFO) \<and>
   GetSuffix (percent_formatter :: unit Formatter) INFO ! 3 = CHR ''%'' \<and>
   writes (Logger_INFO (New None None (Some percent_formatter)))
          (CPrintf ''load '' []) (init_world :: (unit, unit) world)
        = [LoggerCall \<lparr>dest = os_Stdout, lprefix = ''<INFO: '', lflag = 3\<rparr> LPrintf
             (Some ''%sload 100%'') [StringVal ''at '']] \<and>
   read_format (\<lambda>r. min 1 (length r))
       (hd (writes (Logger_INFO (New None None (Some percent_formatter)))
          (CPrintf ''load '' []) (init_world :: (unit, unit) world)))
     = [Directive ''%s'', Literal ''load 100'', Directive ''%''] \<and>
   (\<exists>t. piece_at
       (read_format (\<lambda>r. min 1 (length r))
          (hd (writes (Logger_INFO (New None None (Some percent_formatter)))
             (CPrintf ''load '' []) (init_world :: (unit, unit) world))))
       10 = Some (Directive t))"
  using C10_suffix_in_format [of "init_world :: (unit, unit) world"
      "Logger_INFO (New None None (Some percent_formatter))"
      "CPrintf ''load '' []" "''load ''" "[]" 3 "\<lambda>r. min 1 (length r)"]
  by (simp add: writes_def new_events_def op_defs logger_call_def emit_def
      New_def Let_def init_world_def log_New_def percent_formatter_def
      prefix_at_def prefix_def flag_def Ldate_def Ltime_def level_defs)

subsection \<open>The lock\<close>

lemma stepE:
  assumes "step i c = Some c'"
  obtains a rest where "i < length (threads c)" "threads c ! i = a # rest" "enabled c a"
    "c' = (perform i a c)\<lparr>threads := (threads c)[i := rest]\<rparr>"
  using assms by (auto simp: step_def split: if_splits list.splits)

lemma threads_perform [simp]: "threads (perform i a c) = threads c"
  by (cases a) simp_all

lemma mu_writer_perform:
  "mu_writer (perform i a c) = (if a = A_Lock then True else if a = A_Unlock then False else mu_writer c)"
  by (cases a) simp_all

lemma wf_cases:
  assumes "wf_thread (a # rest)"
  obtains "a = A_RLock" "rest = [A_RUnlock, A_Read]"
  | "a = A_RUnlock" "rest = [A_Read]"
  | "a = A_Read" "rest = []"
  | l where "a = A_Lock" "rest = [A_Write l, A_Unlock]"
  | l where "a = A_Write l" "rest = [A_Unlock]"
  | "a = A_Unlock" "rest = []"
  using assms by (auto simp: wf_thread_def reader_acts_def SetLevel_acts_def)

lemma step_lock_inv:
  assumes "lock_inv c" and "step i c = Some c'"
  shows "lock_inv c'"
proof -
  from assms(2) obtain a rest where i: "i < length (threads c)" and ti: "threads c ! i = a # rest"
    and en: "enabled c a" and c': "c' = (perform i a c)\<lparr>threads := (threads c)[i := rest]\<rparr>"
    by (rule stepE)
  have wf: "wf_thread (a # rest)" using assms(1) i ti by (auto simp: lock_inv_def)
  have len: "length (threads c') = length (threads c)" by (simp add: c')
  have nth: "threads c' ! k = (if k = i then rest else threads c ! k)" if "k < length (threads c)" for k
    using that by (simp add: c' nth_list_update)
  have mw: "mu_writer c' = (if a = A_Lock then True else if a = A_Unlock then False else mu_writer c)"
    by (simp add: c' mu_writer_perform)
  have uniq: "\<And>j k. j < length (threads c) \<Longrightarrow> k < length (threads c) \<Longrightarrow>
      holding (threads c ! j) \<Longrightarrow> holding (threads c ! k) \<Longrightarrow> j = k"
    using assms(1) by (auto simp: lock_inv_def)
  have held: "\<And>j. j < length (threads c) \<Longrightarrow> holding (threads c ! j) \<Longrightarrow> mu_writer c"
    using assms(1) by (auto simp: lock_inv_def)
  have wfall: "\<And>j. j < length (threads c) \<Longrightarrow> wf_thread (threads c ! j)"
    using assms(1) by (auto simp: lock_inv_def)
  have wfrest: "wf_thread rest"
    using wf by (rule wf_cases) (auto simp: wf_thread_def)
  have p1: "\<forall>k < length (threads c'). wf_thread (threads c' ! k)"
    using wfall wfrest by (simp add: len nth)
  from wf show ?thesis
  proof (cases rule: wf_cases)
    case 1
    then show ?thesis unfolding lock_inv_def using p1 uniq held ti i
      by (auto simp: len nth mw split: if_splits)
  next
    case 2
    then show ?thesis unfolding lock_inv_def using p1 uniq held ti i
      by (auto simp: len nth mw split: if_splits)
  next
    case 3
    then show ?thesis unfolding lock_inv_def using p1 uniq held ti i
      by (auto simp: len nth mw split: if_splits)
  next
    case (4 l)
    with en have nw: "\<not> mu_writer c" by simp
    then have nobody: "\<And>j. j < length (threads c) \<Longrightarrow> \<not> holding (threads c ! j)"
      using held by blast
    from 4 show ?thesis unfolding lock_inv_def using p1 nobody
      by (auto simp: len nth mw split: if_splits)
  next
    case (5 l)
    then have hi: "holding (threads c ! i)" using ti by simp
    from 5 show ?thesis unfolding lock_inv_def using p1 uniq held hi i
      by (auto simp: len nth mw split: if_splits)
  next
    case 6
    then have hi: "holding (threads c ! i)" using ti by simp
    then have only: "\<And>j. j < length (threads c) \<Longrightarrow> holding (threads c ! j) \<Longrightarrow> j = i"
      using uniq i by blast
    from 6 show ?thesis unfolding lock_inv_def using p1 only
      by (auto simp: len nth mw split: if_splits)
  qed
qed

lemma run_lock_inv: "lock_inv c \<Longrightarrow> run sched c = Some c' \<Longrightarrow> lock_inv c'"
  by (induction sched arbitrary: c) (auto split: option.splits dest: step_lock_inv)

lemma lock_inv_start:
  assumes "\<forall>t \<in> set ts. t = reader_acts \<or> (\<exists>l. t = SetLevel_acts l)"
  shows "lock_inv (start ts)"
proof -
  have t: "ts ! i = reader_acts \<or> (\<exists>l. ts ! i = SetLevel_acts l)" if "i < length ts" for i
    using assms that nth_mem by blast
  have nh: "\<not> holding (ts ! i)" if "i < length ts" for i
    using t [OF that] by (auto simp: reader_acts_def SetLevel_acts_def)
  have wf: "wf_thread (ts ! i)" if "i < length ts" for i
    using t [OF that] by (auto simp: wf_thread_def)
  show ?thesis
    using nh wf by (simp add: lock_inv_def start_def)
qed

text \<open>
  In every configuration that goroutines running wrapper operations and \<^verbatim>\<open>SetLevel\<close> can
  reach, a goroutine that is about to write the threshold holds the exclusive lock.
\<close>

lemma writes_hold_lock:
  assumes "\<forall>t \<in> set ts. t = reader_acts \<or> (\<exists>l. t = SetLevel_acts l)"
    and "run sched (start ts) = Some c"
    and "i < length (threads c)" and "threads c ! i = A_Write l # rest"
  shows "mu_writer c"
proof -
  have "lock_inv c" using lock_inv_start [OF assms(1)] assms(2) by (rule run_lock_inv)
  moreover have "wf_thread (threads c ! i)" using \<open>lock_inv c\<close> assms(3) by (simp add: lock_inv_def)
  then have "holding (threads c ! i)"
    using assms(4) by (auto simp: wf_thread_def reader_acts_def SetLevel_acts_def)
  ultimately show ?thesis using assms(3) by (auto simp: lock_inv_def)
qed

text \<open>
  C9, evaluated on the code. One goroutine runs a wrapper operation, another
  \<^verbatim>\<open>SetLevel(FATAL)\<close>. After the first has locked and unlocked for reading and the second has
  taken the exclusive lock, the read of the threshold and the write of it are the next
  actions of the two goroutines, and no reader holds the lock: a data race. Either of the
  two can go first, and the read sees the old or the new threshold accordingly.
\<close>

theorem C9_read_outside_lock:
  "run [0, 0, 1] (start [reader_acts, SetLevel_acts FATAL]) =
     Some \<lparr>mu_readers = 0, mu_writer = True, cell = INFO,
           threads = [[A_Read], [A_Write FATAL, A_Unlock]], reads = []\<rparr> \<and>
   race \<lparr>mu_readers = 0, mu_writer = True, cell = INFO,
         threads = [[A_Read], [A_Write FATAL, A_Unlock]], reads = []\<rparr> \<and>
   map_option reads (run [0, 0, 1, 0, 1] (start [reader_acts, SetLevel_acts FATAL]))
     = Some [(0, INFO)] \<and>
   map_option reads (run [0, 0, 1, 1, 0] (start [reader_acts, SetLevel_acts FATAL]))
     = Some [(0, FATAL)]"
  by (simp add: start_def reader_acts_def SetLevel_acts_def step_def race_def)

end
